theory Spec2Isabelle
  imports Main
begin

section \<open>The debug printer of the AOT-Inductor wrapper code generator\<close>

text \<open>
  A shallow embedding of \<^verbatim>\<open>torch/_inductor/codegen/debug_utils.py\<close>.
  The module reads one environment variable and two configuration options, owns a small
  manager object, and writes lines of generated code to the wrapper code buffer of the
  graph being compiled. Everything the Python reaches through globals (\<^verbatim>\<open>os.environ\<close>,
  \<^verbatim>\<open>config\<close>, \<^verbatim>\<open>V.graph\<close>) is an explicit argument here, and the graph is
  passed through and returned, also when an exception is raised: what had been written
  before the raise stays written.
\<close>

subsection \<open>Data\<close>

text \<open>\<^verbatim>\<open>class IntermediateValueDebuggingLevel(Enum)\<close>\<close>

datatype IntermediateValueDebuggingLevel = OFF | SAVE | DEFAULT_PRINT | FILTERED_PRINT

text \<open>
  Exceptions. The module itself raises two: the \<^verbatim>\<open>assert\<close> of the printer, and
  the \<^verbatim>\<open>arg_signatures[i]\<close> of both loops when the list of type tags is shorter
  than the list of arguments. \<open>OtherException\<close> stands for any exception raised by code
  outside the module, named by its class; the module never raises it.
\<close>

datatype error = AssertionError | IndexError | OtherException string

text \<open>
  Modelled from the spec: the class \<^verbatim>\<open>TensorArg\<close> is imported from
  \<^verbatim>\<open>codegen/common.py\<close>, which is not part of the source. The module only ever asks
  \<^verbatim>\<open>isinstance(tag, TensorArg)\<close>, so a type tag is either the tensor kind or some
  other kind.
\<close>

datatype arg_signature = TensorArg | OtherArg

definition isinstance_TensorArg :: "arg_signature \<Rightarrow> bool" where
  "isinstance_TensorArg t = (t = TensorArg)"

text \<open>
  The part of \<^verbatim>\<open>V.graph\<close> the module touches: the flag \<^verbatim>\<open>cpp_wrapper\<close>, the lines
  of \<^verbatim>\<open>wrapper_code\<close> in the order they were written, and the set
  \<^verbatim>\<open>all_codegen_kernel_names\<close>.
\<close>

record graph =
  cpp_wrapper :: bool
  wrapper_code :: "string list"
  all_codegen_kernel_names :: "string set"

text \<open>
  The part of \<^verbatim>\<open>config\<close> the module reads: \<^verbatim>\<open>config.abi_compatible\<close> and
  \<^verbatim>\<open>config.aot_inductor.filtered_kernel_names\<close> (\<open>None\<close> when unset).
\<close>

record config =
  abi_compatible :: bool
  filtered_kernel_names :: "string option"

text \<open>
  The fields of a \<^verbatim>\<open>DebugPrinterManager\<close>. The kernel descriptor is opaque to the
  module: it is stored and never inspected.
\<close>

record 'k DebugPrinterManager =
  enable_debug_printer :: IntermediateValueDebuggingLevel
  args_to_print_or_save :: "string list"
  kernel_name :: string
  arg_signatures :: "arg_signature list option"
  kernel :: "'k option"
  filtered_kernel_names_to_print :: "string list"

type_synonym 'a result = "(error + 'a) \<times> graph"

subsection \<open>The debug level resolver\<close>

text \<open>
  \<^verbatim>\<open>os.environ.get("AOT_INDUCTOR_DEBUG_INTERMEDIATE_VALUE_PRINTER", "0")\<close>: the
  argument is the value of the variable, \<open>None\<close> when it is unset.
\<close>

definition environ_get :: "string option \<Rightarrow> string \<Rightarrow> string" where
  "environ_get v dflt = (case v of None \<Rightarrow> dflt | Some s \<Rightarrow> s)"

definition aot_inductor_debug_intermediate_tensor_value_level ::
    "string option \<Rightarrow> IntermediateValueDebuggingLevel" where
  "aot_inductor_debug_intermediate_tensor_value_level env =
     (if environ_get env ''0'' = ''1'' then SAVE
      else if environ_get env ''0'' = ''2'' then DEFAULT_PRINT
      else if environ_get env ''0'' = ''3'' then FILTERED_PRINT
      else OFF)"

subsection \<open>The filter list\<close>

text \<open>
  \<^verbatim>\<open>str.lower\<close>, \<^verbatim>\<open>str.split(",")\<close> and \<^verbatim>\<open>str.strip()\<close> on strings of ASCII
  characters. A \<open>char\<close> is a byte here, and bytes from 128 on are left as they are,
  whereas Python also lower-cases the letters beyond ASCII and also strips the white
  space beyond ASCII (U+0085, U+00A0 and others): a filter string with such characters
  is outside this model, and nothing below is stated about one. The white space
  \<^verbatim>\<open>strip\<close> removes here is the ASCII white space of Python's \<^verbatim>\<open>str.isspace\<close>:
  the codes 9 to 13, 28 to 31 and 32.
\<close>

definition lower_char :: "char \<Rightarrow> char" where
  "lower_char c =
     (let n = (of_char c :: nat) in if 65 \<le> n \<and> n \<le> 90 then char_of (n + 32) else c)"

definition lower :: "string \<Rightarrow> string" where
  "lower s = map lower_char s"

definition isspace :: "char \<Rightarrow> bool" where
  "isspace c =
     (let n = (of_char c :: nat) in (9 \<le> n \<and> n \<le> 13) \<or> (28 \<le> n \<and> n \<le> 31) \<or> n = 32)"

definition strip :: "string \<Rightarrow> string" where
  "strip s = rev (dropWhile isspace (rev (dropWhile isspace s)))"

text \<open>\<^verbatim>\<open>s.split(sep)\<close> for a separator of one character: never an empty list.\<close>

fun split :: "char \<Rightarrow> string \<Rightarrow> string list" where
  "split sep [] = [[]]"
| "split sep (c # cs) =
     (if c = sep then [] # split sep cs
      else (case split sep cs of
              [] \<Rightarrow> [[c]]
            | w # ws \<Rightarrow> (c # w) # ws))"

text \<open>
  \<^verbatim>\<open>get_debug_filtered_kernel_names\<close>. The \<^verbatim>\<open>lru_cache\<close> is keyed on the
  instance and the method is called once, by the constructor, so the cached value is the
  value computed from the configuration at construction.
\<close>

definition get_debug_filtered_kernel_names :: "config \<Rightarrow> string list" where
  "get_debug_filtered_kernel_names cfg =
     (case filtered_kernel_names cfg of
        None \<Rightarrow> []
      | Some s \<Rightarrow> map strip (split (CHR '','') (lower s)))"

subsection \<open>Constructor and setter\<close>

text \<open>
  \<^verbatim>\<open>__init__\<close>: the level is resolved from the environment whatever
  \<^verbatim>\<open>enable_debug_printer\<close> is passed, and \<^verbatim>\<open>self.arg_signatures\<close> is set to
  \<open>None\<close> whatever \<^verbatim>\<open>arg_signatures\<close> is passed.
\<close>

definition DebugPrinterManager_init ::
    "string option \<Rightarrow> config \<Rightarrow> IntermediateValueDebuggingLevel \<Rightarrow> string list option \<Rightarrow>
     string \<Rightarrow> 'k option \<Rightarrow> arg_signature list option \<Rightarrow> 'k DebugPrinterManager" where
  "DebugPrinterManager_init env cfg enable_debug_printer_arg args_arg kernel_name_arg
       kernel_arg arg_signatures_arg =
     \<lparr> enable_debug_printer = aot_inductor_debug_intermediate_tensor_value_level env,
       args_to_print_or_save = (case args_arg of None \<Rightarrow> [] | Some xs \<Rightarrow> xs),
       kernel_name = kernel_name_arg,
       arg_signatures = None,
       kernel = kernel_arg,
       filtered_kernel_names_to_print = get_debug_filtered_kernel_names cfg \<rparr>"

definition set_printer_args ::
    "'k DebugPrinterManager \<Rightarrow> string list \<Rightarrow> string \<Rightarrow> arg_signature list option \<Rightarrow>
     'k option \<Rightarrow> 'k DebugPrinterManager" where
  "set_printer_args self args_to_print kernel_name_arg arg_signatures_arg kernel_arg =
     self\<lparr> args_to_print_or_save := args_to_print,
           kernel_name := kernel_name_arg,
           arg_signatures := arg_signatures_arg,
           kernel := kernel_arg \<rparr>"

subsection \<open>Generated lines\<close>

text \<open>
  Modelled from the spec: \<^verbatim>\<open>V.graph.wrapper_code.writeline\<close> and
  \<^verbatim>\<open>V.graph.all_codegen_kernel_names.add\<close> belong to classes that are not part of the
  source. The code buffer takes one line at a time and keeps the lines in the order of
  the calls; the registry is a set of names.
\<close>

definition writeline :: "string \<Rightarrow> graph \<Rightarrow> graph" where
  "writeline line g = g\<lparr>wrapper_code := wrapper_code g @ [line]\<rparr>"

definition add_kernel_name :: "string \<Rightarrow> graph \<Rightarrow> graph" where
  "add_kernel_name k g = g\<lparr>all_codegen_kernel_names := insert k (all_codegen_kernel_names g)\<rparr>"

definition launch_prefix :: "bool \<Rightarrow> string" where
  "launch_prefix before_launch = (if before_launch then ''before_launch'' else ''after_launch'')"

text \<open>The three f-strings of the module.\<close>

definition save_tensor_handle_line :: \<open>string \<Rightarrow> string \<Rightarrow> string \<Rightarrow> string\<close> where
  \<open>save_tensor_handle_line arg prefix kn =
     ''aoti_torch_save_tensor_handle('' @ arg @ '', "'' @ arg @ ''", "'' @ prefix @
     ''", "'' @ kn @ ''");''\<close>

definition print_tensor_handle_line :: \<open>string \<Rightarrow> string \<Rightarrow> string \<Rightarrow> string\<close> where
  \<open>print_tensor_handle_line arg prefix kn =
     ''aoti_torch_print_tensor_handle('' @ arg @ '', "'' @ prefix @ '' - '' @ kn @
     '' - '' @ arg @ ''");''\<close>

definition python_print_line :: \<open>string \<Rightarrow> string \<Rightarrow> string \<Rightarrow> string\<close> where
  \<open>python_print_line arg prefix kn =
     ''print('' @ [CHR 0x27] @ prefix @ '' - '' @ kn @ '' - '' @ arg @ [CHR 0x27] @
     '', '' @ arg @ '')''\<close>

subsection \<open>The two loops\<close>

text \<open>
  The test at the head of both loops,
  \<^verbatim>\<open>arg_signatures is not None and not isinstance(arg_signatures[i], TensorArg)\<close>:
  whether argument \<open>i\<close> is skipped, or the \<^verbatim>\<open>IndexError\<close> of the subscript.
\<close>

definition not_tensor_arg :: "arg_signature list option \<Rightarrow> nat \<Rightarrow> error + bool" where
  "not_tensor_arg sigs i =
     (case sigs of
        None \<Rightarrow> Inr False
      | Some ts \<Rightarrow>
          if i < length ts then Inr (\<not> isinstance_TensorArg (ts ! i)) else Inl IndexError)"

text \<open>
  \<^verbatim>\<open>codegen_intermediate_tensor_value_save\<close>: the loop over
  \<^verbatim>\<open>enumerate(args_to_save)\<close>, from index \<open>i\<close> on.
\<close>

fun save_loop ::
    "config \<Rightarrow> string \<Rightarrow> bool \<Rightarrow> arg_signature list option \<Rightarrow> nat \<Rightarrow> string list \<Rightarrow>
     graph \<Rightarrow> unit result" where
  "save_loop cfg kn before_launch sigs i [] g = (Inr (), g)"
| "save_loop cfg kn before_launch sigs i (arg # rest) g =
     (case not_tensor_arg sigs i of
        Inl e \<Rightarrow> (Inl e, g)
      | Inr True \<Rightarrow> save_loop cfg kn before_launch sigs (Suc i) rest g
      | Inr False \<Rightarrow>
          save_loop cfg kn before_launch sigs (Suc i) rest
            (if cpp_wrapper g then
               (if abi_compatible cfg then
                  writeline (save_tensor_handle_line arg (launch_prefix before_launch) kn) g
                else g)
             else g))"

definition codegen_intermediate_tensor_value_save ::
    "config \<Rightarrow> string list \<Rightarrow> string \<Rightarrow> bool \<Rightarrow> arg_signature list option \<Rightarrow>
     graph \<Rightarrow> unit result" where
  "codegen_intermediate_tensor_value_save cfg args_to_save kn before_launch sigs g =
     save_loop cfg kn before_launch sigs 0 args_to_save g"

text \<open>
  \<^verbatim>\<open>codegen_intermediate_tensor_value_printer\<close>: the level and the filter list come
  from \<^verbatim>\<open>self\<close>, the arguments, the kernel name and the type tags from the call.
\<close>

fun printer_loop ::
    "'k DebugPrinterManager \<Rightarrow> config \<Rightarrow> string \<Rightarrow> bool \<Rightarrow> arg_signature list option \<Rightarrow>
     nat \<Rightarrow> string list \<Rightarrow> graph \<Rightarrow> unit result" where
  "printer_loop self cfg kn before_launch sigs i [] g = (Inr (), g)"
| "printer_loop self cfg kn before_launch sigs i (arg # rest) g =
     (case not_tensor_arg sigs i of
        Inl e \<Rightarrow> (Inl e, g)
      | Inr True \<Rightarrow> printer_loop self cfg kn before_launch sigs (Suc i) rest g
      | Inr False \<Rightarrow>
          if enable_debug_printer self = FILTERED_PRINT
             \<and> \<not> length (filtered_kernel_names_to_print self) > 0
          then (Inl AssertionError, g)
          else if enable_debug_printer self = FILTERED_PRINT
             \<and> kn \<notin> set (filtered_kernel_names_to_print self)
          then printer_loop self cfg kn before_launch sigs (Suc i) rest g
          else
            printer_loop self cfg kn before_launch sigs (Suc i) rest
              (if cpp_wrapper g then
                 (if abi_compatible cfg then
                    writeline (print_tensor_handle_line arg (launch_prefix before_launch) kn) g
                  else g)
               else writeline (python_print_line arg (launch_prefix before_launch) kn) g))"

definition codegen_intermediate_tensor_value_printer ::
    "'k DebugPrinterManager \<Rightarrow> config \<Rightarrow> string list \<Rightarrow> string \<Rightarrow> bool \<Rightarrow>
     arg_signature list option \<Rightarrow> graph \<Rightarrow> unit result" where
  "codegen_intermediate_tensor_value_printer self cfg args_to_print kn before_launch sigs g =
     printer_loop self cfg kn before_launch sigs 0 args_to_print g"

subsection \<open>Scope entry and exit\<close>

text \<open>
  \<^verbatim>\<open>__enter__\<close> and \<^verbatim>\<open>__exit__\<close>. An exception raised by the save step leaves
  the method at once, so the print step is not reached. The three parameters of
  \<^verbatim>\<open>__exit__\<close> receive the exception triple of the scope and are not used; the
  method returns \<open>None\<close>.
\<close>

definition DebugPrinterManager_enter :: "'k DebugPrinterManager \<Rightarrow> config \<Rightarrow> graph \<Rightarrow> unit result" where
  "DebugPrinterManager_enter self cfg g =
     (if enable_debug_printer self \<noteq> OFF then
        (case codegen_intermediate_tensor_value_save cfg (args_to_print_or_save self)
                (kernel_name self) True (arg_signatures self)
                (add_kernel_name (kernel_name self) g) of
           (Inl e, g') \<Rightarrow> (Inl e, g')
         | (Inr u, g') \<Rightarrow>
             if enable_debug_printer self \<noteq> SAVE then
               codegen_intermediate_tensor_value_printer self cfg (args_to_print_or_save self)
                 (kernel_name self) True (arg_signatures self) g'
             else (Inr (), g'))
      else (Inr (), g))"

definition DebugPrinterManager_exit :: "'k DebugPrinterManager \<Rightarrow> config \<Rightarrow> graph \<Rightarrow> unit result" where
  "DebugPrinterManager_exit self cfg g =
     (if enable_debug_printer self \<noteq> OFF then
        (case codegen_intermediate_tensor_value_save cfg (args_to_print_or_save self)
                (kernel_name self) False (arg_signatures self) g of
           (Inl e, g') \<Rightarrow> (Inl e, g')
         | (Inr u, g') \<Rightarrow>
             if enable_debug_printer self \<noteq> SAVE then
               codegen_intermediate_tensor_value_printer self cfg (args_to_print_or_save self)
                 (kernel_name self) False (arg_signatures self) g'
             else (Inr (), g'))
      else (Inr (), g))"

subsection \<open>The scope\<close>

text \<open>
  Modelled from the spec: the scoped use of the manager. The call sites that put the
  code of a kernel launch inside the manager's scope (a \<^verbatim>\<open>with\<close> statement) are not
  part of the source. Scope entry runs first; when it raises, the scope is not entered,
  scope exit does not run and the exception propagates. Otherwise the code inside the
  scope runs. It may change the manager (the setter works in place), the configuration
  and the graph, so it takes all three and returns all three with its outcome. Scope
  exit runs after it whether it returned or raised, on the manager, the configuration
  and the graph it left; \<^verbatim>\<open>__exit__\<close> returns \<open>None\<close>, so an exception of the code
  inside the scope propagates once scope exit is done. An exception of scope exit
  itself propagates in place of it.
\<close>

type_synonym ('k, 'a) scoped = "(error + 'a) \<times> 'k DebugPrinterManager \<times> config \<times> graph"

definition with_DebugPrinterManager ::
    "'k DebugPrinterManager \<Rightarrow> config \<Rightarrow>
     ('k DebugPrinterManager \<Rightarrow> config \<Rightarrow> graph \<Rightarrow> ('k, 'a) scoped) \<Rightarrow> graph \<Rightarrow>
     ('k, 'a) scoped" where
  "with_DebugPrinterManager self cfg body g =
     (case DebugPrinterManager_enter self cfg g of
        (Inl e, g1) \<Rightarrow> (Inl e, self, cfg, g1)
      | (Inr u, g1) \<Rightarrow>
          (case body self cfg g1 of
             (r, self', cfg', g2) \<Rightarrow>
               (case DebugPrinterManager_exit self' cfg' g2 of
                  (Inl e, g3) \<Rightarrow> (Inl e, self', cfg', g3)
                | (Inr u', g3) \<Rightarrow> (r, self', cfg', g3))))"

subsection \<open>The vocabulary of the specification\<close>

text \<open>
  The definitions of this subsection are not translations of code: they name what the
  specification talks about, so that the properties can say what the loops write.

  The list of type tags covers \<open>n\<close> arguments when it is absent or has at least \<open>n\<close>
  entries: then no subscript of the loops is out of range.
\<close>

definition sigs_cover :: "arg_signature list option \<Rightarrow> nat \<Rightarrow> bool" where
  "sigs_cover sigs n = (case sigs of None \<Rightarrow> True | Some ts \<Rightarrow> n \<le> length ts)"

text \<open>
  The tensor-typed arguments, in their order: all of them when there is no list of type
  tags, and otherwise those whose tag is the tensor kind.
\<close>

definition tensor_typed_args :: "arg_signature list option \<Rightarrow> string list \<Rightarrow> string list" where
  "tensor_typed_args sigs args =
     (case sigs of
        None \<Rightarrow> args
      | Some ts \<Rightarrow> map fst (filter (\<lambda>(a, t). t = TensorArg) (zip args ts)))"

text \<open>
  The save lines and the print lines of one phase for a list of tensor-typed arguments,
  by target: the cpp wrapper writes both in ABI-compatible mode and nothing otherwise,
  the Python wrapper writes print lines only. At FILTERED_PRINT a kernel outside the
  filter list has no print lines. \<open>scope_lines\<close> is what one phase of a scope writes at
  a level other than OFF: the save lines, then the print lines unless the level is SAVE.
\<close>

definition save_lines :: "config \<Rightarrow> bool \<Rightarrow> string \<Rightarrow> string \<Rightarrow> string list \<Rightarrow> string list" where
  "save_lines cfg cpp kn prefix targs =
     (if cpp \<and> abi_compatible cfg
      then map (\<lambda>a. save_tensor_handle_line a prefix kn) targs else [])"

definition print_lines ::
    "'k DebugPrinterManager \<Rightarrow> config \<Rightarrow> bool \<Rightarrow> string \<Rightarrow> string \<Rightarrow> string list \<Rightarrow>
     string list" where
  "print_lines self cfg cpp kn prefix targs =
     (if enable_debug_printer self = FILTERED_PRINT
         \<and> kn \<notin> set (filtered_kernel_names_to_print self)
      then []
      else if cpp then
        (if abi_compatible cfg then map (\<lambda>a. print_tensor_handle_line a prefix kn) targs
         else [])
      else map (\<lambda>a. python_print_line a prefix kn) targs)"

definition scope_lines :: "'k DebugPrinterManager \<Rightarrow> config \<Rightarrow> bool \<Rightarrow> string \<Rightarrow> string list" where
  "scope_lines self cfg cpp prefix =
     save_lines cfg cpp (kernel_name self) prefix
       (tensor_typed_args (arg_signatures self) (args_to_print_or_save self))
     @ (if enable_debug_printer self = SAVE then []
        else print_lines self cfg cpp (kernel_name self) prefix
          (tensor_typed_args (arg_signatures self) (args_to_print_or_save self)))"

text \<open>A print line is a line either of the two print formats can produce.\<close>

definition is_print_line :: "string \<Rightarrow> bool" where
  "is_print_line l =
     (\<exists>arg prefix kn.
        l = print_tensor_handle_line arg prefix kn \<or> l = python_print_line arg prefix kn)"

section \<open>What the loops write\<close>

lemmas eval_defs =
  DebugPrinterManager_enter_def DebugPrinterManager_exit_def with_DebugPrinterManager_def
  codegen_intermediate_tensor_value_save_def codegen_intermediate_tensor_value_printer_def
  not_tensor_arg_def isinstance_TensorArg_def writeline_def add_kernel_name_def
  launch_prefix_def DebugPrinterManager_init_def set_printer_args_def
  aot_inductor_debug_intermediate_tensor_value_level_def environ_get_def
  get_debug_filtered_kernel_names_def lower_def lower_char_def strip_def isspace_def
  save_tensor_handle_line_def print_tensor_handle_line_def python_print_line_def

lemma writeline_simps [simp]:
  "cpp_wrapper (writeline l g) = cpp_wrapper g"
  "all_codegen_kernel_names (writeline l g) = all_codegen_kernel_names g"
  "wrapper_code (writeline l g) = wrapper_code g @ [l]"
  by (simp_all add: writeline_def)

lemma add_kernel_name_simps [simp]:
  "cpp_wrapper (add_kernel_name k g) = cpp_wrapper g"
  "all_codegen_kernel_names (add_kernel_name k g) = insert k (all_codegen_kernel_names g)"
  "wrapper_code (add_kernel_name k g) = wrapper_code g"
  by (simp_all add: add_kernel_name_def)

lemma tensor_typed_args_Nil [simp]: "tensor_typed_args sigs [] = []"
  by (simp add: tensor_typed_args_def split: option.splits)

lemma tensor_typed_args_None [simp]: "tensor_typed_args None args = args"
  by (simp add: tensor_typed_args_def)

lemma tensor_typed_args_drop:
  assumes "i < length ts"
  shows "tensor_typed_args (Some (drop i ts)) (a # rest) =
           (if ts ! i = TensorArg then [a] else [])
           @ tensor_typed_args (Some (drop (Suc i) ts)) rest"
proof -
  from assms have "drop i ts = ts ! i # drop (Suc i) ts"
    by (simp add: Cons_nth_drop_Suc)
  then show ?thesis
    by (simp add: tensor_typed_args_def)
qed

lemma save_line_not_print: "\<not> is_print_line (save_tensor_handle_line a p k)"
  by (simp add: is_print_line_def save_tensor_handle_line_def print_tensor_handle_line_def
      python_print_line_def)

subsection \<open>Neither loop touches the target flag or the registry\<close>

lemma save_loop_frame:
  "cpp_wrapper (snd (save_loop cfg kn bl sigs i args g)) = cpp_wrapper g
   \<and> all_codegen_kernel_names (snd (save_loop cfg kn bl sigs i args g))
       = all_codegen_kernel_names g"
  by (induction args arbitrary: i g) (auto split: sum.splits bool.splits)

lemma printer_loop_frame:
  "cpp_wrapper (snd (printer_loop self cfg kn bl sigs i args g)) = cpp_wrapper g
   \<and> all_codegen_kernel_names (snd (printer_loop self cfg kn bl sigs i args g))
       = all_codegen_kernel_names g"
  by (induction args arbitrary: i g) (auto split: sum.splits bool.splits)

subsection \<open>The loops when every argument has a type tag\<close>

text \<open>
  From index \<open>i\<close> on, the loops see the tags \<open>drop i ts\<close>; the statement is
  generalised over the index and the graph, which both change from one iteration to
  the next.
\<close>

lemma save_loop_covered:
  "sigs_cover sigs (i + length args) \<Longrightarrow>
     save_loop cfg kn bl sigs i args g =
       (Inr (), g\<lparr>wrapper_code := wrapper_code g @
          save_lines cfg (cpp_wrapper g) kn (launch_prefix bl)
            (tensor_typed_args (map_option (drop i) sigs) args)\<rparr>)"
proof (induction args arbitrary: i g)
  case Nil
  then show ?case by (simp add: save_lines_def)
next
  case (Cons a rest)
  from Cons.prems have cov: "sigs_cover sigs (Suc i + length rest)"
    by simp
  note IH = Cons.IH [OF cov]
  show ?case
  proof (cases sigs)
    case None
    with IH show ?thesis
      by (simp add: not_tensor_arg_def save_lines_def writeline_def)
  next
    case (Some ts)
    with Cons.prems have lt: "i < length ts"
      by (simp add: sigs_cover_def)
    show ?thesis
      using Some lt IH
      by (simp add: not_tensor_arg_def isinstance_TensorArg_def save_lines_def
          tensor_typed_args_drop writeline_def)
  qed
qed

lemma printer_loop_covered:
  "sigs_cover sigs (i + length args) \<Longrightarrow>
     printer_loop self cfg kn bl sigs i args g =
       (if enable_debug_printer self = FILTERED_PRINT
           \<and> filtered_kernel_names_to_print self = []
           \<and> tensor_typed_args (map_option (drop i) sigs) args \<noteq> []
        then (Inl AssertionError, g)
        else (Inr (), g\<lparr>wrapper_code := wrapper_code g @
          print_lines self cfg (cpp_wrapper g) kn (launch_prefix bl)
            (tensor_typed_args (map_option (drop i) sigs) args)\<rparr>))"
proof (induction args arbitrary: i g)
  case Nil
  then show ?case by (simp add: print_lines_def)
next
  case (Cons a rest)
  from Cons.prems have cov: "sigs_cover sigs (Suc i + length rest)"
    by simp
  note IH = Cons.IH [OF cov]
  show ?case
  proof (cases sigs)
    case None
    with IH show ?thesis
      by (simp add: not_tensor_arg_def print_lines_def writeline_def)
  next
    case (Some ts)
    with Cons.prems have lt: "i < length ts"
      by (simp add: sigs_cover_def)
    show ?thesis
      using Some lt IH
      by (simp add: not_tensor_arg_def isinstance_TensorArg_def print_lines_def
          tensor_typed_args_drop writeline_def)
  qed
qed

lemma save_covered:
  "sigs_cover sigs (length args) \<Longrightarrow>
     codegen_intermediate_tensor_value_save cfg args kn bl sigs g =
       (Inr (), g\<lparr>wrapper_code := wrapper_code g @
          save_lines cfg (cpp_wrapper g) kn (launch_prefix bl) (tensor_typed_args sigs args)\<rparr>)"
  using save_loop_covered [of sigs 0 args cfg kn bl g]
  by (simp add: codegen_intermediate_tensor_value_save_def option.map_ident)

lemma printer_covered:
  "sigs_cover sigs (length args) \<Longrightarrow>
     codegen_intermediate_tensor_value_printer self cfg args kn bl sigs g =
       (if enable_debug_printer self = FILTERED_PRINT
           \<and> filtered_kernel_names_to_print self = []
           \<and> tensor_typed_args sigs args \<noteq> []
        then (Inl AssertionError, g)
        else (Inr (), g\<lparr>wrapper_code := wrapper_code g @
          print_lines self cfg (cpp_wrapper g) kn (launch_prefix bl)
            (tensor_typed_args sigs args)\<rparr>))"
  using printer_loop_covered [of sigs 0 args self cfg kn bl g]
  by (simp add: codegen_intermediate_tensor_value_printer_def option.map_ident)

subsection \<open>The loops when a type tag is missing\<close>

lemma save_loop_short:
  "i \<le> length ts \<Longrightarrow> length ts < i + length args \<Longrightarrow>
     fst (save_loop cfg kn bl (Some ts) i args g) = Inl IndexError"
proof (induction args arbitrary: i g)
  case Nil
  then show ?case by simp
next
  case (Cons a rest)
  show ?case
  proof (cases "i < length ts")
    case True
    with Cons.prems have "Suc i \<le> length ts" "length ts < Suc i + length rest"
      by simp_all
    then have "\<And>g'. fst (save_loop cfg kn bl (Some ts) (Suc i) rest g') = Inl IndexError"
      by (rule Cons.IH)
    with True show ?thesis
      by (simp add: not_tensor_arg_def split: bool.splits)
  next
    case False
    then show ?thesis
      by (simp add: not_tensor_arg_def)
  qed
qed

lemma save_short:
  "length ts < length args \<Longrightarrow>
     fst (codegen_intermediate_tensor_value_save cfg args kn bl (Some ts) g) = Inl IndexError"
  using save_loop_short [of 0 ts args cfg kn bl g]
  by (simp add: codegen_intermediate_tensor_value_save_def)

subsection \<open>The loops when nothing is written\<close>

lemma not_tensor_arg_untagged:
  assumes "TensorArg \<notin> set ts"
  shows "not_tensor_arg (Some ts) i = (if i < length ts then Inr True else Inl IndexError)"
proof (cases "i < length ts")
  case True
  then have "ts ! i \<in> set ts"
    by simp
  with assms have "ts ! i \<noteq> TensorArg"
    by metis
  with True show ?thesis
    by (simp add: not_tensor_arg_def isinstance_TensorArg_def)
next
  case False
  then show ?thesis
    by (simp add: not_tensor_arg_def)
qed

lemma save_loop_untagged:
  "TensorArg \<notin> set ts \<Longrightarrow> snd (save_loop cfg kn bl (Some ts) i args g) = g"
  by (induction args arbitrary: i) (simp_all add: not_tensor_arg_untagged)

lemma printer_loop_untagged:
  "TensorArg \<notin> set ts \<Longrightarrow> snd (printer_loop self cfg kn bl (Some ts) i args g) = g"
  by (induction args arbitrary: i) (simp_all add: not_tensor_arg_untagged)

lemma save_loop_stub:
  "cpp_wrapper g \<Longrightarrow> \<not> abi_compatible cfg \<Longrightarrow> snd (save_loop cfg kn bl sigs i args g) = g"
  by (induction args arbitrary: i) (simp_all split: sum.splits bool.splits)

lemma printer_loop_stub:
  "cpp_wrapper g \<Longrightarrow> \<not> abi_compatible cfg \<Longrightarrow>
     snd (printer_loop self cfg kn bl sigs i args g) = g"
  by (induction args arbitrary: i) (simp_all split: sum.splits bool.splits)

lemma save_loop_silent:
  assumes "(\<exists>ts. sigs = Some ts \<and> TensorArg \<notin> set ts)
           \<or> (cpp_wrapper g \<and> \<not> abi_compatible cfg)"
  shows "wrapper_code (snd (save_loop cfg kn bl sigs i args g)) = wrapper_code g"
  using assms by (auto simp: save_loop_untagged save_loop_stub)

lemma printer_loop_silent:
  assumes "(\<exists>ts. sigs = Some ts \<and> TensorArg \<notin> set ts)
           \<or> (cpp_wrapper g \<and> \<not> abi_compatible cfg)"
  shows "wrapper_code (snd (printer_loop self cfg kn bl sigs i args g)) = wrapper_code g"
  using assms by (auto simp: printer_loop_untagged printer_loop_stub)

subsection \<open>Scope entry and exit when every argument has a type tag\<close>

lemma enter_covered:
  assumes "enable_debug_printer self \<noteq> OFF"
    and "sigs_cover (arg_signatures self) (length (args_to_print_or_save self))"
  shows "DebugPrinterManager_enter self cfg g =
     (if enable_debug_printer self = FILTERED_PRINT
         \<and> filtered_kernel_names_to_print self = []
         \<and> tensor_typed_args (arg_signatures self) (args_to_print_or_save self) \<noteq> []
      then (Inl AssertionError,
            (add_kernel_name (kernel_name self) g)\<lparr>wrapper_code := wrapper_code g @
               save_lines cfg (cpp_wrapper g) (kernel_name self) ''before_launch''
                 (tensor_typed_args (arg_signatures self) (args_to_print_or_save self))\<rparr>)
      else (Inr (),
            (add_kernel_name (kernel_name self) g)\<lparr>wrapper_code := wrapper_code g @
               scope_lines self cfg (cpp_wrapper g) ''before_launch''\<rparr>))"
  using assms
  by (simp add: DebugPrinterManager_enter_def save_covered printer_covered scope_lines_def
      launch_prefix_def)

lemma exit_covered:
  assumes "enable_debug_printer self \<noteq> OFF"
    and "sigs_cover (arg_signatures self) (length (args_to_print_or_save self))"
  shows "DebugPrinterManager_exit self cfg g =
     (if enable_debug_printer self = FILTERED_PRINT
         \<and> filtered_kernel_names_to_print self = []
         \<and> tensor_typed_args (arg_signatures self) (args_to_print_or_save self) \<noteq> []
      then (Inl AssertionError,
            g\<lparr>wrapper_code := wrapper_code g @
               save_lines cfg (cpp_wrapper g) (kernel_name self) ''after_launch''
                 (tensor_typed_args (arg_signatures self) (args_to_print_or_save self))\<rparr>)
      else (Inr (),
            g\<lparr>wrapper_code := wrapper_code g @
               scope_lines self cfg (cpp_wrapper g) ''after_launch''\<rparr>))"
  using assms
  by (simp add: DebugPrinterManager_exit_def save_covered printer_covered scope_lines_def
      launch_prefix_def)

text \<open>A scope entry that returns has found a type tag for every argument.\<close>

lemma enter_returns_covered:
  assumes "enable_debug_printer self \<noteq> OFF"
    and "fst (DebugPrinterManager_enter self cfg g) = Inr ()"
  shows "sigs_cover (arg_signatures self) (length (args_to_print_or_save self))"
proof (rule ccontr)
  assume "\<not> sigs_cover (arg_signatures self) (length (args_to_print_or_save self))"
  then obtain ts where ts: "arg_signatures self = Some ts"
    "length ts < length (args_to_print_or_save self)"
    by (auto simp: sigs_cover_def split: option.splits)
  have "fst (codegen_intermediate_tensor_value_save cfg (args_to_print_or_save self)
          (kernel_name self) True (Some ts) (add_kernel_name (kernel_name self) g))
        = Inl IndexError"
    using ts(2) by (rule save_short)
  with assms ts(1) show False
    by (auto simp: DebugPrinterManager_enter_def split: prod.splits sum.splits)
qed

section \<open>Properties\<close>

subsection \<open>FILTERED_PRINT with an empty filter list\<close>

text \<open>
  C1, as stated, does not hold: the \<^verbatim>\<open>assert\<close> stands inside the loop of the printer,
  behind the test of the type tag, and the printer runs after the save step. With no
  watched argument scope entry returns normally; with the argument \<open>buf0\<close> on the
  ABI-compatible cpp wrapper the assertion fails once the save line of \<open>buf0\<close> is in
  the code buffer.
\<close>

theorem filtered_print_empty_filter_counterexample:
  \<open>DebugPrinterManager_enter
      (DebugPrinterManager_init (Some ''3'')
         \<lparr>abi_compatible = True, filtered_kernel_names = None\<rparr>
         OFF None ''k0'' (None :: unit option) None)
      \<lparr>abi_compatible = True, filtered_kernel_names = None\<rparr>
      \<lparr>cpp_wrapper = True, wrapper_code = [], all_codegen_kernel_names = {}\<rparr>
     = (Inr (), \<lparr>cpp_wrapper = True, wrapper_code = [], all_codegen_kernel_names = {''k0''}\<rparr>)
   \<and> DebugPrinterManager_enter
      (DebugPrinterManager_init (Some ''3'')
         \<lparr>abi_compatible = True, filtered_kernel_names = None\<rparr>
         OFF (Some [''buf0'']) ''k0'' (None :: unit option) None)
      \<lparr>abi_compatible = True, filtered_kernel_names = None\<rparr>
      \<lparr>cpp_wrapper = True, wrapper_code = [], all_codegen_kernel_names = {}\<rparr>
     = (Inl AssertionError,
        \<lparr>cpp_wrapper = True,
         wrapper_code = [''aoti_torch_save_tensor_handle(buf0, "buf0", "before_launch", "k0");''],
         all_codegen_kernel_names = {''k0''}\<rparr>)\<close>
  by (simp add: eval_defs)

text \<open>
  C1, amended. At level FILTERED_PRINT with an empty filter list, and a type tag for
  every watched argument when there is a list of type tags, scope entry raises the
  assertion error exactly when some watched argument is tensor-typed. It raises before
  any print line is appended, and after the kernel name has been registered and the
  before-launch save lines of the tensor-typed arguments have been appended (these
  exist on the ABI-compatible cpp wrapper only). With no tensor-typed argument scope
  entry returns normally and appends nothing.
\<close>

theorem filtered_print_empty_filter_entry:
  assumes "enable_debug_printer self = FILTERED_PRINT"
    and "filtered_kernel_names_to_print self = []"
    and "sigs_cover (arg_signatures self) (length (args_to_print_or_save self))"
  shows "DebugPrinterManager_enter self cfg g =
     (if tensor_typed_args (arg_signatures self) (args_to_print_or_save self) = []
      then Inr () else Inl AssertionError,
      (add_kernel_name (kernel_name self) g)\<lparr>wrapper_code := wrapper_code g @
         (if cpp_wrapper g \<and> abi_compatible cfg
          then map (\<lambda>a. save_tensor_handle_line a ''before_launch'' (kernel_name self))
                 (tensor_typed_args (arg_signatures self) (args_to_print_or_save self))
          else [])\<rparr>)"
  using assms
  by (simp add: enter_covered scope_lines_def save_lines_def print_lines_def)

text \<open>
  The amended C1 at a concrete scope: the arguments \<open>x\<close> (not a tensor) and \<open>buf0\<close>
  (a tensor), on the ABI-compatible cpp wrapper, with one line already in the buffer.
\<close>

theorem filtered_print_empty_filter_entry_witness:
  \<open>DebugPrinterManager_enter
      \<lparr>enable_debug_printer = FILTERED_PRINT, args_to_print_or_save = [''x'', ''buf0''],
       kernel_name = ''k0'', arg_signatures = Some [OtherArg, TensorArg],
       kernel = (None :: unit option), filtered_kernel_names_to_print = []\<rparr>
      \<lparr>abi_compatible = True, filtered_kernel_names = None\<rparr>
      \<lparr>cpp_wrapper = True, wrapper_code = [''line''], all_codegen_kernel_names = {}\<rparr>
     = (Inl AssertionError,
        \<lparr>cpp_wrapper = True,
         wrapper_code = [''line'',
           ''aoti_torch_save_tensor_handle(buf0, "buf0", "before_launch", "k0");''],
         all_codegen_kernel_names = {''k0''}\<rparr>)\<close>
  using filtered_print_empty_filter_entry [of
      "\<lparr>enable_debug_printer = FILTERED_PRINT, args_to_print_or_save = [''x'', ''buf0''],
       kernel_name = ''k0'', arg_signatures = Some [OtherArg, TensorArg],
       kernel = (None :: unit option), filtered_kernel_names_to_print = []\<rparr>"
      "\<lparr>abi_compatible = True, filtered_kernel_names = None\<rparr>"
      "\<lparr>cpp_wrapper = True, wrapper_code = [''line''], all_codegen_kernel_names = {}\<rparr>"]
  by (simp add: sigs_cover_def tensor_typed_args_def add_kernel_name_def
      save_tensor_handle_line_def)

subsection \<open>The level SAVE\<close>

text \<open>
  C2, as stated, does not hold for every target: the save step writes on the cpp wrapper
  in ABI-compatible mode only, and the other two branches are \<^verbatim>\<open>pass\<close>. On the
  Python wrapper, at level SAVE, the tensor-typed argument \<open>buf0\<close> gets no save line,
  neither on scope entry nor on scope exit.
\<close>

theorem save_level_counterexample:
  "DebugPrinterManager_enter
      (DebugPrinterManager_init (Some ''1'')
         \<lparr>abi_compatible = True, filtered_kernel_names = None\<rparr>
         OFF (Some [''buf0'']) ''k0'' (None :: unit option) None)
      \<lparr>abi_compatible = True, filtered_kernel_names = None\<rparr>
      \<lparr>cpp_wrapper = False, wrapper_code = [], all_codegen_kernel_names = {}\<rparr>
     = (Inr (), \<lparr>cpp_wrapper = False, wrapper_code = [], all_codegen_kernel_names = {''k0''}\<rparr>)
   \<and> DebugPrinterManager_exit
      (DebugPrinterManager_init (Some ''1'')
         \<lparr>abi_compatible = True, filtered_kernel_names = None\<rparr>
         OFF (Some [''buf0'']) ''k0'' (None :: unit option) None)
      \<lparr>abi_compatible = True, filtered_kernel_names = None\<rparr>
      \<lparr>cpp_wrapper = False, wrapper_code = [], all_codegen_kernel_names = {''k0''}\<rparr>
     = (Inr (), \<lparr>cpp_wrapper = False, wrapper_code = [], all_codegen_kernel_names = {''k0''}\<rparr>)"
  by (simp add: eval_defs)

text \<open>
  C2, amended. At level SAVE, with a type tag for every watched argument when there is
  a list of type tags, and for every kernel name: on the ABI-compatible cpp wrapper
  scope entry appends exactly one before-launch save line per tensor-typed argument, in
  the order of the arguments, and scope exit exactly one after-launch save line per
  tensor-typed argument; on any other target neither appends a line. None of the lines
  appended is a print line.
\<close>

theorem save_level_lines:
  assumes "enable_debug_printer self = SAVE"
    and "sigs_cover (arg_signatures self) (length (args_to_print_or_save self))"
  shows "DebugPrinterManager_enter self cfg g =
       (Inr (), (add_kernel_name (kernel_name self) g)\<lparr>wrapper_code := wrapper_code g @
          (if cpp_wrapper g \<and> abi_compatible cfg
           then map (\<lambda>a. save_tensor_handle_line a ''before_launch'' (kernel_name self))
                  (tensor_typed_args (arg_signatures self) (args_to_print_or_save self))
           else [])\<rparr>)
     \<and> DebugPrinterManager_exit self cfg g =
       (Inr (), g\<lparr>wrapper_code := wrapper_code g @
          (if cpp_wrapper g \<and> abi_compatible cfg
           then map (\<lambda>a. save_tensor_handle_line a ''after_launch'' (kernel_name self))
                  (tensor_typed_args (arg_signatures self) (args_to_print_or_save self))
           else [])\<rparr>)
     \<and> (\<forall>l \<in> set (map (\<lambda>a. save_tensor_handle_line a ''before_launch'' (kernel_name self))
                     (tensor_typed_args (arg_signatures self) (args_to_print_or_save self)))
             \<union> set (map (\<lambda>a. save_tensor_handle_line a ''after_launch'' (kernel_name self))
                     (tensor_typed_args (arg_signatures self) (args_to_print_or_save self))).
          \<not> is_print_line l)"
  using assms
  by (auto simp: enter_covered exit_covered scope_lines_def save_lines_def save_line_not_print)

text \<open>
  The amended C2 at a concrete scope: three arguments, the second not a tensor, on the
  ABI-compatible cpp wrapper.
\<close>

theorem save_level_lines_witness:
  \<open>DebugPrinterManager_enter
      \<lparr>enable_debug_printer = SAVE, args_to_print_or_save = [''buf0'', ''n'', ''buf1''],
       kernel_name = ''k0'', arg_signatures = Some [TensorArg, OtherArg, TensorArg],
       kernel = (None :: unit option), filtered_kernel_names_to_print = []\<rparr>
      \<lparr>abi_compatible = True, filtered_kernel_names = None\<rparr>
      \<lparr>cpp_wrapper = True, wrapper_code = [], all_codegen_kernel_names = {}\<rparr>
     = (Inr (),
        \<lparr>cpp_wrapper = True,
         wrapper_code = [
           ''aoti_torch_save_tensor_handle(buf0, "buf0", "before_launch", "k0");'',
           ''aoti_torch_save_tensor_handle(buf1, "buf1", "before_launch", "k0");''],
         all_codegen_kernel_names = {''k0''}\<rparr>)
   \<and> DebugPrinterManager_exit
      \<lparr>enable_debug_printer = SAVE, args_to_print_or_save = [''buf0'', ''n'', ''buf1''],
       kernel_name = ''k0'', arg_signatures = Some [TensorArg, OtherArg, TensorArg],
       kernel = (None :: unit option), filtered_kernel_names_to_print = []\<rparr>
      \<lparr>abi_compatible = True, filtered_kernel_names = None\<rparr>
      \<lparr>cpp_wrapper = True, wrapper_code = [], all_codegen_kernel_names = {}\<rparr>
     = (Inr (),
        \<lparr>cpp_wrapper = True,
         wrapper_code = [
           ''aoti_torch_save_tensor_handle(buf0, "buf0", "after_launch", "k0");'',
           ''aoti_torch_save_tensor_handle(buf1, "buf1", "after_launch", "k0");''],
         all_codegen_kernel_names = {}\<rparr>)
   \<and> \<not> is_print_line ''aoti_torch_save_tensor_handle(buf0, "buf0", "before_launch", "k0");''\<close>
  using save_level_lines [of
      "\<lparr>enable_debug_printer = SAVE, args_to_print_or_save = [''buf0'', ''n'', ''buf1''],
       kernel_name = ''k0'', arg_signatures = Some [TensorArg, OtherArg, TensorArg],
       kernel = (None :: unit option), filtered_kernel_names_to_print = []\<rparr>"
      "\<lparr>abi_compatible = True, filtered_kernel_names = None\<rparr>"
      "\<lparr>cpp_wrapper = True, wrapper_code = [], all_codegen_kernel_names = {}\<rparr>"]
  by (simp add: sigs_cover_def tensor_typed_args_def add_kernel_name_def
      save_tensor_handle_line_def)

subsection \<open>The scenario at DEFAULT_PRINT\<close>

text \<open>
  C3, as stated, does not hold for every target. On the Python wrapper the scenario
  (level DEFAULT_PRINT, the one argument \<open>buf0\<close> tagged as a tensor, the kernel
  \<open>k0\<close>) appends two lines, not four: the save step writes nothing there, and the
  print lines have the format of the Python target.
\<close>

theorem default_print_scenario_counterexample:
  \<open>DebugPrinterManager_enter
      (set_printer_args
         (DebugPrinterManager_init (Some ''2'')
            \<lparr>abi_compatible = False, filtered_kernel_names = None\<rparr>
            OFF None [] (None :: unit option) None)
         [''buf0''] ''k0'' (Some [TensorArg]) None)
      \<lparr>abi_compatible = False, filtered_kernel_names = None\<rparr>
      \<lparr>cpp_wrapper = False, wrapper_code = [], all_codegen_kernel_names = {}\<rparr>
     = (Inr (),
        \<lparr>cpp_wrapper = False,
         wrapper_code = [''print('before_launch - k0 - buf0', buf0)''],
         all_codegen_kernel_names = {''k0''}\<rparr>)
   \<and> DebugPrinterManager_exit
      (set_printer_args
         (DebugPrinterManager_init (Some ''2'')
            \<lparr>abi_compatible = False, filtered_kernel_names = None\<rparr>
            OFF None [] (None :: unit option) None)
         [''buf0''] ''k0'' (Some [TensorArg]) None)
      \<lparr>abi_compatible = False, filtered_kernel_names = None\<rparr>
      \<lparr>cpp_wrapper = False,
       wrapper_code = [''print('before_launch - k0 - buf0', buf0)''],
       all_codegen_kernel_names = {''k0''}\<rparr>
     = (Inr (),
        \<lparr>cpp_wrapper = False,
         wrapper_code = [''print('before_launch - k0 - buf0', buf0)'',
                         ''print('after_launch - k0 - buf0', buf0)''],
         all_codegen_kernel_names = {''k0''}\<rparr>)\<close>
  by (simp add: eval_defs)

text \<open>
  C3, amended. On the ABI-compatible cpp wrapper, at level DEFAULT_PRINT with the one
  argument \<open>buf0\<close> tagged as a tensor and the kernel name \<open>k0\<close>, scope entry
  followed by scope exit appends exactly four lines, in this order: the before-launch
  save line of \<open>buf0\<close>, its before-launch print line, its after-launch save line, its
  after-launch print line, each in the format of the native target.
\<close>

theorem default_print_scenario:
  assumes \<open>enable_debug_printer self = DEFAULT_PRINT\<close>
    and \<open>args_to_print_or_save self = [''buf0'']\<close>
    and \<open>kernel_name self = ''k0''\<close>
    and \<open>arg_signatures self = Some [TensorArg]\<close>
    and \<open>cpp_wrapper g\<close> and \<open>abi_compatible cfg\<close>
  shows \<open>DebugPrinterManager_enter self cfg g =
       (Inr (), (add_kernel_name ''k0'' g)\<lparr>wrapper_code := wrapper_code g @
          [''aoti_torch_save_tensor_handle(buf0, "buf0", "before_launch", "k0");'',
           ''aoti_torch_print_tensor_handle(buf0, "before_launch - k0 - buf0");'']\<rparr>)
     \<and> DebugPrinterManager_exit self cfg
          ((add_kernel_name ''k0'' g)\<lparr>wrapper_code := wrapper_code g @
             [''aoti_torch_save_tensor_handle(buf0, "buf0", "before_launch", "k0");'',
              ''aoti_torch_print_tensor_handle(buf0, "before_launch - k0 - buf0");'']\<rparr>) =
       (Inr (), (add_kernel_name ''k0'' g)\<lparr>wrapper_code := wrapper_code g @
          [''aoti_torch_save_tensor_handle(buf0, "buf0", "before_launch", "k0");'',
           ''aoti_torch_print_tensor_handle(buf0, "before_launch - k0 - buf0");'',
           ''aoti_torch_save_tensor_handle(buf0, "buf0", "after_launch", "k0");'',
           ''aoti_torch_print_tensor_handle(buf0, "after_launch - k0 - buf0");'']\<rparr>)\<close>
  using assms
  by (simp add: enter_covered exit_covered scope_lines_def save_lines_def print_lines_def
      sigs_cover_def tensor_typed_args_def save_tensor_handle_line_def
      print_tensor_handle_line_def)

text \<open>
  The amended C3 on a manager built by the constructor with the variable set to \<open>2\<close>
  and given its arguments by the setter, starting from an empty code buffer.
\<close>

theorem default_print_scenario_witness:
  \<open>DebugPrinterManager_exit
      (set_printer_args
         (DebugPrinterManager_init (Some ''2'')
            \<lparr>abi_compatible = True, filtered_kernel_names = None\<rparr>
            OFF None [] (None :: unit option) None)
         [''buf0''] ''k0'' (Some [TensorArg]) None)
      \<lparr>abi_compatible = True, filtered_kernel_names = None\<rparr>
      (snd (DebugPrinterManager_enter
         (set_printer_args
            (DebugPrinterManager_init (Some ''2'')
               \<lparr>abi_compatible = True, filtered_kernel_names = None\<rparr>
               OFF None [] (None :: unit option) None)
            [''buf0''] ''k0'' (Some [TensorArg]) None)
         \<lparr>abi_compatible = True, filtered_kernel_names = None\<rparr>
         \<lparr>cpp_wrapper = True, wrapper_code = [], all_codegen_kernel_names = {}\<rparr>))
     = (Inr (),
        \<lparr>cpp_wrapper = True,
         wrapper_code = [
           ''aoti_torch_save_tensor_handle(buf0, "buf0", "before_launch", "k0");'',
           ''aoti_torch_print_tensor_handle(buf0, "before_launch - k0 - buf0");'',
           ''aoti_torch_save_tensor_handle(buf0, "buf0", "after_launch", "k0");'',
           ''aoti_torch_print_tensor_handle(buf0, "after_launch - k0 - buf0");''],
         all_codegen_kernel_names = {''k0''}\<rparr>)\<close>
  using default_print_scenario [of
      "set_printer_args
         (DebugPrinterManager_init (Some ''2'')
            \<lparr>abi_compatible = True, filtered_kernel_names = None\<rparr>
            OFF None [] (None :: unit option) None)
         [''buf0''] ''k0'' (Some [TensorArg]) None"
      "\<lparr>cpp_wrapper = True, wrapper_code = [], all_codegen_kernel_names = {}\<rparr>"
      "\<lparr>abi_compatible = True, filtered_kernel_names = None\<rparr>"]
  by (simp add: DebugPrinterManager_init_def set_printer_args_def add_kernel_name_def
      aot_inductor_debug_intermediate_tensor_value_level_def environ_get_def)

subsection \<open>The filter of FILTERED_PRINT\<close>

lemma filter_names_example:
  \<open>get_debug_filtered_kernel_names
      \<lparr>abi_compatible = False, filtered_kernel_names = Some ''MatMul_Kernel, add_kernel''\<rparr>
     = [''matmul_kernel'', ''add_kernel'']\<close>
  by code_simp

text \<open>
  C4. The configured names are lower-cased before they are split and stripped, but the
  kernel name is looked up in the resulting list as it is. With the filter string
  \<open>MatMul_Kernel, add_kernel\<close> the list is \<open>matmul_kernel\<close>, \<open>add_kernel\<close>; on the
  Python wrapper the kernel \<open>matmul_kernel\<close> gets its print line, and the kernel
  \<open>MatMul_Kernel\<close>, the very name that was configured, gets none. So the match is
  insensitive to the case of the configured names only, not to the case of the kernel
  name.
\<close>

theorem filter_match_kernel_name_case:
  \<open>get_debug_filtered_kernel_names
      \<lparr>abi_compatible = False, filtered_kernel_names = Some ''MatMul_Kernel, add_kernel''\<rparr>
     = [''matmul_kernel'', ''add_kernel'']
   \<and> DebugPrinterManager_enter
      (set_printer_args
         (DebugPrinterManager_init (Some ''3'')
            \<lparr>abi_compatible = False, filtered_kernel_names = Some ''MatMul_Kernel, add_kernel''\<rparr>
            OFF None [] (None :: unit option) None)
         [''buf0''] ''matmul_kernel'' None None)
      \<lparr>abi_compatible = False, filtered_kernel_names = Some ''MatMul_Kernel, add_kernel''\<rparr>
      \<lparr>cpp_wrapper = False, wrapper_code = [], all_codegen_kernel_names = {}\<rparr>
     = (Inr (),
        \<lparr>cpp_wrapper = False,
         wrapper_code = [''print('before_launch - matmul_kernel - buf0', buf0)''],
         all_codegen_kernel_names = {''matmul_kernel''}\<rparr>)
   \<and> DebugPrinterManager_enter
      (set_printer_args
         (DebugPrinterManager_init (Some ''3'')
            \<lparr>abi_compatible = False, filtered_kernel_names = Some ''MatMul_Kernel, add_kernel''\<rparr>
            OFF None [] (None :: unit option) None)
         [''buf0''] ''MatMul_Kernel'' None None)
      \<lparr>abi_compatible = False, filtered_kernel_names = Some ''MatMul_Kernel, add_kernel''\<rparr>
      \<lparr>cpp_wrapper = False, wrapper_code = [], all_codegen_kernel_names = {}\<rparr>
     = (Inr (),
        \<lparr>cpp_wrapper = False, wrapper_code = [],
         all_codegen_kernel_names = {''MatMul_Kernel''}\<rparr>)\<close>
  by (simp add: filter_names_example DebugPrinterManager_enter_def
      codegen_intermediate_tensor_value_save_def codegen_intermediate_tensor_value_printer_def
      not_tensor_arg_def writeline_def add_kernel_name_def launch_prefix_def
      DebugPrinterManager_init_def set_printer_args_def
      aot_inductor_debug_intermediate_tensor_value_level_def environ_get_def
      python_print_line_def)

text \<open>
  C5, as stated, does not hold for every target. On the cpp wrapper without
  ABI-compatible mode, at level FILTERED_PRINT with the filter list \<open>matmul_kernel\<close>,
  the kernel \<open>matmul_kernel\<close> with the tensor-typed argument \<open>buf0\<close> gets no print
  line: scope entry and scope exit leave the code buffer empty.
\<close>

theorem filtered_print_matching_counterexample:
  "DebugPrinterManager_enter
      (set_printer_args
         (DebugPrinterManager_init (Some ''3'')
            \<lparr>abi_compatible = False, filtered_kernel_names = Some ''matmul_kernel''\<rparr>
            OFF None [] (None :: unit option) None)
         [''buf0''] ''matmul_kernel'' None None)
      \<lparr>abi_compatible = False, filtered_kernel_names = Some ''matmul_kernel''\<rparr>
      \<lparr>cpp_wrapper = True, wrapper_code = [], all_codegen_kernel_names = {}\<rparr>
     = (Inr (),
        \<lparr>cpp_wrapper = True, wrapper_code = [],
         all_codegen_kernel_names = {''matmul_kernel''}\<rparr>)
   \<and> DebugPrinterManager_exit
      (set_printer_args
         (DebugPrinterManager_init (Some ''3'')
            \<lparr>abi_compatible = False, filtered_kernel_names = Some ''matmul_kernel''\<rparr>
            OFF None [] (None :: unit option) None)
         [''buf0''] ''matmul_kernel'' None None)
      \<lparr>abi_compatible = False, filtered_kernel_names = Some ''matmul_kernel''\<rparr>
      \<lparr>cpp_wrapper = True, wrapper_code = [],
       all_codegen_kernel_names = {''matmul_kernel''}\<rparr>
     = (Inr (),
        \<lparr>cpp_wrapper = True, wrapper_code = [],
         all_codegen_kernel_names = {''matmul_kernel''}\<rparr>)"
  by (simp add: DebugPrinterManager_enter_def DebugPrinterManager_exit_def
      codegen_intermediate_tensor_value_save_def codegen_intermediate_tensor_value_printer_def
      not_tensor_arg_def add_kernel_name_def DebugPrinterManager_init_def
      set_printer_args_def aot_inductor_debug_intermediate_tensor_value_level_def
      environ_get_def get_debug_filtered_kernel_names_def lower_def lower_char_def
      strip_def isspace_def)

text \<open>
  C5, amended. On the ABI-compatible cpp wrapper, at level FILTERED_PRINT with the
  filter list \<open>matmul_kernel\<close> and a type tag for every watched argument when there is
  a list of type tags: for the kernel \<open>matmul_kernel\<close> scope entry and scope exit each
  append the save lines of the tensor-typed arguments and then their print lines; for
  the kernel \<open>add_kernel\<close> they append the save lines all the same and no print line.
\<close>

theorem filtered_print_matching_kernel:
  assumes "enable_debug_printer self = FILTERED_PRINT"
    and "filtered_kernel_names_to_print self = [''matmul_kernel'']"
    and "sigs_cover (arg_signatures self) (length (args_to_print_or_save self))"
    and "cpp_wrapper g" and "abi_compatible cfg"
  shows "(kernel_name self = ''matmul_kernel'' \<longrightarrow>
        DebugPrinterManager_enter self cfg g =
          (Inr (), (add_kernel_name ''matmul_kernel'' g)\<lparr>wrapper_code := wrapper_code g @
             map (\<lambda>a. save_tensor_handle_line a ''before_launch'' ''matmul_kernel'')
               (tensor_typed_args (arg_signatures self) (args_to_print_or_save self)) @
             map (\<lambda>a. print_tensor_handle_line a ''before_launch'' ''matmul_kernel'')
               (tensor_typed_args (arg_signatures self) (args_to_print_or_save self))\<rparr>)
        \<and> DebugPrinterManager_exit self cfg g =
          (Inr (), g\<lparr>wrapper_code := wrapper_code g @
             map (\<lambda>a. save_tensor_handle_line a ''after_launch'' ''matmul_kernel'')
               (tensor_typed_args (arg_signatures self) (args_to_print_or_save self)) @
             map (\<lambda>a. print_tensor_handle_line a ''after_launch'' ''matmul_kernel'')
               (tensor_typed_args (arg_signatures self) (args_to_print_or_save self))\<rparr>))
     \<and> (kernel_name self = ''add_kernel'' \<longrightarrow>
        DebugPrinterManager_enter self cfg g =
          (Inr (), (add_kernel_name ''add_kernel'' g)\<lparr>wrapper_code := wrapper_code g @
             map (\<lambda>a. save_tensor_handle_line a ''before_launch'' ''add_kernel'')
               (tensor_typed_args (arg_signatures self) (args_to_print_or_save self))\<rparr>)
        \<and> DebugPrinterManager_exit self cfg g =
          (Inr (), g\<lparr>wrapper_code := wrapper_code g @
             map (\<lambda>a. save_tensor_handle_line a ''after_launch'' ''add_kernel'')
               (tensor_typed_args (arg_signatures self) (args_to_print_or_save self))\<rparr>))"
  using assms
  by (simp add: enter_covered exit_covered scope_lines_def save_lines_def print_lines_def)

text \<open>
  The amended C5 at two concrete scope entries on the ABI-compatible cpp wrapper, one
  for each kernel name, with the argument \<open>buf0\<close>.
\<close>

theorem filtered_print_matching_kernel_witness:
  \<open>DebugPrinterManager_enter
      \<lparr>enable_debug_printer = FILTERED_PRINT, args_to_print_or_save = [''buf0''],
       kernel_name = ''matmul_kernel'', arg_signatures = None,
       kernel = (None :: unit option), filtered_kernel_names_to_print = [''matmul_kernel'']\<rparr>
      \<lparr>abi_compatible = True, filtered_kernel_names = Some ''matmul_kernel''\<rparr>
      \<lparr>cpp_wrapper = True, wrapper_code = [], all_codegen_kernel_names = {}\<rparr>
     = (Inr (),
        \<lparr>cpp_wrapper = True,
         wrapper_code = [
           ''aoti_torch_save_tensor_handle(buf0, "buf0", "before_launch", "matmul_kernel");'',
           ''aoti_torch_print_tensor_handle(buf0, "before_launch - matmul_kernel - buf0");''],
         all_codegen_kernel_names = {''matmul_kernel''}\<rparr>)
   \<and> DebugPrinterManager_enter
      \<lparr>enable_debug_printer = FILTERED_PRINT, args_to_print_or_save = [''buf0''],
       kernel_name = ''add_kernel'', arg_signatures = None,
       kernel = (None :: unit option), filtered_kernel_names_to_print = [''matmul_kernel'']\<rparr>
      \<lparr>abi_compatible = True, filtered_kernel_names = Some ''matmul_kernel''\<rparr>
      \<lparr>cpp_wrapper = True, wrapper_code = [], all_codegen_kernel_names = {}\<rparr>
     = (Inr (),
        \<lparr>cpp_wrapper = True,
         wrapper_code = [
           ''aoti_torch_save_tensor_handle(buf0, "buf0", "before_launch", "add_kernel");''],
         all_codegen_kernel_names = {''add_kernel''}\<rparr>)\<close>
  using filtered_print_matching_kernel [of
      "\<lparr>enable_debug_printer = FILTERED_PRINT, args_to_print_or_save = [''buf0''],
       kernel_name = ''matmul_kernel'', arg_signatures = None,
       kernel = (None :: unit option), filtered_kernel_names_to_print = [''matmul_kernel'']\<rparr>"
      "\<lparr>cpp_wrapper = True, wrapper_code = [], all_codegen_kernel_names = {}\<rparr>"
      "\<lparr>abi_compatible = True, filtered_kernel_names = Some ''matmul_kernel''\<rparr>"]
    filtered_print_matching_kernel [of
      "\<lparr>enable_debug_printer = FILTERED_PRINT, args_to_print_or_save = [''buf0''],
       kernel_name = ''add_kernel'', arg_signatures = None,
       kernel = (None :: unit option), filtered_kernel_names_to_print = [''matmul_kernel'']\<rparr>"
      "\<lparr>cpp_wrapper = True, wrapper_code = [], all_codegen_kernel_names = {}\<rparr>"
      "\<lparr>abi_compatible = True, filtered_kernel_names = Some ''matmul_kernel''\<rparr>"]
  by (simp add: sigs_cover_def add_kernel_name_def save_tensor_handle_line_def
      print_tensor_handle_line_def)

subsection \<open>The resolver\<close>

text \<open>
  C6. The resolver maps the value \<open>1\<close> of the environment variable to SAVE, \<open>2\<close> to
  DEFAULT_PRINT, \<open>3\<close> to FILTERED_PRINT, and every other value, the value \<open>0\<close> and
  the unset variable among them, to OFF. It is a total function of the variable: there
  is no value at which it raises.
\<close>

theorem resolver_levels:
  "aot_inductor_debug_intermediate_tensor_value_level (Some ''1'') = SAVE
   \<and> aot_inductor_debug_intermediate_tensor_value_level (Some ''2'') = DEFAULT_PRINT
   \<and> aot_inductor_debug_intermediate_tensor_value_level (Some ''3'') = FILTERED_PRINT
   \<and> aot_inductor_debug_intermediate_tensor_value_level (Some ''0'') = OFF
   \<and> aot_inductor_debug_intermediate_tensor_value_level None = OFF
   \<and> (\<forall>s. s \<noteq> ''1'' \<and> s \<noteq> ''2'' \<and> s \<noteq> ''3''
          \<longrightarrow> aot_inductor_debug_intermediate_tensor_value_level (Some s) = OFF)"
  by (simp add: aot_inductor_debug_intermediate_tensor_value_level_def environ_get_def)

theorem resolver_levels_witness:
  "''debug'' \<noteq> ''1'' \<and> ''debug'' \<noteq> ''2'' \<and> ''debug'' \<noteq> ''3''
   \<and> aot_inductor_debug_intermediate_tensor_value_level (Some ''debug'') = OFF"
  using resolver_levels by simp

subsection \<open>The level OFF\<close>

text \<open>
  C7. At level OFF, scope entry and scope exit return normally and leave the graph as it
  was: no line is appended to the code buffer and the registry of kernel names is not
  modified, whatever the arguments, the kernel name and the type tags are.
\<close>

theorem off_is_noop:
  "enable_debug_printer self = OFF \<Longrightarrow>
     DebugPrinterManager_enter self cfg g = (Inr (), g)
     \<and> DebugPrinterManager_exit self cfg g = (Inr (), g)"
  by (simp add: DebugPrinterManager_enter_def DebugPrinterManager_exit_def)

theorem off_is_noop_witness:
  "DebugPrinterManager_enter
      (DebugPrinterManager_init (Some ''0'') \<lparr>abi_compatible = True, filtered_kernel_names = None\<rparr>
         DEFAULT_PRINT (Some [''buf0'']) ''k0'' (None :: unit option) (Some [TensorArg]))
      \<lparr>abi_compatible = True, filtered_kernel_names = None\<rparr>
      \<lparr>cpp_wrapper = True, wrapper_code = [], all_codegen_kernel_names = {}\<rparr>
     = (Inr (), \<lparr>cpp_wrapper = True, wrapper_code = [], all_codegen_kernel_names = {}\<rparr>)
   \<and> DebugPrinterManager_exit
      (DebugPrinterManager_init (Some ''0'') \<lparr>abi_compatible = True, filtered_kernel_names = None\<rparr>
         DEFAULT_PRINT (Some [''buf0'']) ''k0'' (None :: unit option) (Some [TensorArg]))
      \<lparr>abi_compatible = True, filtered_kernel_names = None\<rparr>
      \<lparr>cpp_wrapper = True, wrapper_code = [], all_codegen_kernel_names = {}\<rparr>
     = (Inr (), \<lparr>cpp_wrapper = True, wrapper_code = [], all_codegen_kernel_names = {}\<rparr>)"
  using off_is_noop [of "DebugPrinterManager_init (Some ''0'')
      \<lparr>abi_compatible = True, filtered_kernel_names = None\<rparr>
      DEFAULT_PRINT (Some [''buf0'']) ''k0'' (None :: unit option) (Some [TensorArg])"
    "\<lparr>abi_compatible = True, filtered_kernel_names = None\<rparr>"
    "\<lparr>cpp_wrapper = True, wrapper_code = [], all_codegen_kernel_names = {}\<rparr>"]
  by (simp add: DebugPrinterManager_init_def
      aot_inductor_debug_intermediate_tensor_value_level_def environ_get_def)

subsection \<open>The scope and the code inside it\<close>

text \<open>
  C8, as stated, does not hold: there are scopes at a level other than OFF whose
  before-launch lines stay without their after-launch counterparts. First, when scope
  entry itself raises, the scope is never entered and scope exit does not run: at level
  FILTERED_PRINT with an empty filter list, on the ABI-compatible cpp wrapper, the
  scope around a launch of \<open>k0\<close> with the argument \<open>buf0\<close> ends with the
  before-launch save line of \<open>buf0\<close> in the code buffer and no after-launch line.
  Second, scope exit reads the manager as the code inside the scope left it: at level
  DEFAULT_PRINT, when that code calls the setter with two arguments, one type tag and
  the kernel \<open>k1\<close>, scope exit writes an after-launch save line for \<open>buf1\<close> of
  \<open>k1\<close> and raises on the missing type tag, and the before-launch lines of
  \<open>buf0\<close> of \<open>k0\<close> have no counterpart.
\<close>

theorem scope_pairing_counterexample:
  \<open>with_DebugPrinterManager
      (DebugPrinterManager_init (Some ''3'')
         \<lparr>abi_compatible = True, filtered_kernel_names = None\<rparr>
         OFF (Some [''buf0'']) ''k0'' (None :: unit option) None)
      \<lparr>abi_compatible = True, filtered_kernel_names = None\<rparr>
      (\<lambda>self cfg g. (Inr (), self, cfg, writeline ''k0(buf0);'' g))
      \<lparr>cpp_wrapper = True, wrapper_code = [], all_codegen_kernel_names = {}\<rparr>
     = (Inl AssertionError,
        DebugPrinterManager_init (Some ''3'')
          \<lparr>abi_compatible = True, filtered_kernel_names = None\<rparr>
          OFF (Some [''buf0'']) ''k0'' (None :: unit option) None,
        \<lparr>abi_compatible = True, filtered_kernel_names = None\<rparr>,
        \<lparr>cpp_wrapper = True,
         wrapper_code = [''aoti_torch_save_tensor_handle(buf0, "buf0", "before_launch", "k0");''],
         all_codegen_kernel_names = {''k0''}\<rparr>)
   \<and> with_DebugPrinterManager
      (set_printer_args
         (DebugPrinterManager_init (Some ''2'')
            \<lparr>abi_compatible = True, filtered_kernel_names = None\<rparr>
            OFF None [] (None :: unit option) None)
         [''buf0''] ''k0'' (Some [TensorArg]) None)
      \<lparr>abi_compatible = True, filtered_kernel_names = None\<rparr>
      (\<lambda>self cfg g.
         (Inr (), set_printer_args self [''buf1'', ''buf2''] ''k1'' (Some [TensorArg]) None,
          cfg, writeline ''k0(buf0);'' g))
      \<lparr>cpp_wrapper = True, wrapper_code = [], all_codegen_kernel_names = {}\<rparr>
     = (Inl IndexError,
        set_printer_args
          (DebugPrinterManager_init (Some ''2'')
             \<lparr>abi_compatible = True, filtered_kernel_names = None\<rparr>
             OFF None [] (None :: unit option) None)
          [''buf1'', ''buf2''] ''k1'' (Some [TensorArg]) None,
        \<lparr>abi_compatible = True, filtered_kernel_names = None\<rparr>,
        \<lparr>cpp_wrapper = True,
         wrapper_code = [
           ''aoti_torch_save_tensor_handle(buf0, "buf0", "before_launch", "k0");'',
           ''aoti_torch_print_tensor_handle(buf0, "before_launch - k0 - buf0");'',
           ''k0(buf0);'',
           ''aoti_torch_save_tensor_handle(buf1, "buf1", "after_launch", "k1");''],
         all_codegen_kernel_names = {''k0''}\<rparr>)\<close>
  by (simp add: eval_defs)

text \<open>
  C8, amended. At a level other than OFF:
  \<^item> when scope entry raises, the scope is not entered and scope exit does not run: the
    scope ends with the exception of scope entry, and with the graph as scope entry
    left it;
  \<^item> when scope entry returns normally, it has appended the before-launch lines, and
    scope exit runs after the code inside the scope, whether that code returned or
    raised, on the manager, the configuration and the graph that code left: the scope
    ends with the outcome of that code unless scope exit itself raises;
  \<^item> when moreover that code has not changed the manager, scope exit does not raise: the
    scope ends with the outcome of that code (its exception, if it raised one) and with
    the after-launch lines appended behind whatever that code wrote;
  \<^item> when moreover that code has changed neither the configuration nor the target, the
    after-launch lines are the before-launch lines of scope entry with the phase
    replaced: the same save lines and print lines, for the same arguments and kernel.
\<close>

theorem scope_exit_runs_after_body:
  assumes "enable_debug_printer self \<noteq> OFF"
  shows "(\<forall>e g1. DebugPrinterManager_enter self cfg g = (Inl e, g1) \<longrightarrow>
            with_DebugPrinterManager self cfg body g = (Inl e, self, cfg, g1))
     \<and> (\<forall>g1 r self' cfg' g2.
          DebugPrinterManager_enter self cfg g = (Inr (), g1)
          \<and> body self cfg g1 = (r, self', cfg', g2) \<longrightarrow>
            wrapper_code g1
              = wrapper_code g @ scope_lines self cfg (cpp_wrapper g) ''before_launch''
          \<and> with_DebugPrinterManager self cfg body g =
              (case DebugPrinterManager_exit self' cfg' g2 of
                 (Inl e, g3) \<Rightarrow> (Inl e, self', cfg', g3)
               | (Inr u, g3) \<Rightarrow> (r, self', cfg', g3))
          \<and> (self' = self \<longrightarrow>
                DebugPrinterManager_exit self' cfg' g2 =
                  (Inr (), g2\<lparr>wrapper_code := wrapper_code g2 @
                     scope_lines self cfg' (cpp_wrapper g2) ''after_launch''\<rparr>)
              \<and> with_DebugPrinterManager self cfg body g =
                  (r, self, cfg', g2\<lparr>wrapper_code := wrapper_code g2 @
                     scope_lines self cfg' (cpp_wrapper g2) ''after_launch''\<rparr>))
          \<and> (self' = self \<and> cfg' = cfg \<and> cpp_wrapper g2 = cpp_wrapper g \<longrightarrow>
                with_DebugPrinterManager self cfg body g =
                  (r, self, cfg, g2\<lparr>wrapper_code := wrapper_code g2 @
                     scope_lines self cfg (cpp_wrapper g) ''after_launch''\<rparr>)))"
proof -
  have raised: "with_DebugPrinterManager self cfg body g = (Inl e, self, cfg, g1)"
    if "DebugPrinterManager_enter self cfg g = (Inl e, g1)" for e g1
    using that by (simp add: with_DebugPrinterManager_def)
  have entered:
    "wrapper_code g1 = wrapper_code g @ scope_lines self cfg (cpp_wrapper g) ''before_launch''
     \<and> with_DebugPrinterManager self cfg body g =
         (case DebugPrinterManager_exit self' cfg' g2 of
            (Inl e, g3) \<Rightarrow> (Inl e, self', cfg', g3)
          | (Inr u, g3) \<Rightarrow> (r, self', cfg', g3))
     \<and> (self' = self \<longrightarrow>
           DebugPrinterManager_exit self' cfg' g2 =
             (Inr (), g2\<lparr>wrapper_code := wrapper_code g2 @
                scope_lines self cfg' (cpp_wrapper g2) ''after_launch''\<rparr>)
         \<and> with_DebugPrinterManager self cfg body g =
             (r, self, cfg', g2\<lparr>wrapper_code := wrapper_code g2 @
                scope_lines self cfg' (cpp_wrapper g2) ''after_launch''\<rparr>))
     \<and> (self' = self \<and> cfg' = cfg \<and> cpp_wrapper g2 = cpp_wrapper g \<longrightarrow>
           with_DebugPrinterManager self cfg body g =
             (r, self, cfg, g2\<lparr>wrapper_code := wrapper_code g2 @
                scope_lines self cfg (cpp_wrapper g) ''after_launch''\<rparr>))"
    if en: "DebugPrinterManager_enter self cfg g = (Inr (), g1)"
      and bo: "body self cfg g1 = (r, self', cfg', g2)"
    for g1 r self' cfg' g2
  proof -
    from assms en have cov:
      "sigs_cover (arg_signatures self) (length (args_to_print_or_save self))"
      using enter_returns_covered [of self cfg g] by simp
    from en have ok: "\<not> (enable_debug_printer self = FILTERED_PRINT
           \<and> filtered_kernel_names_to_print self = []
           \<and> tensor_typed_args (arg_signatures self) (args_to_print_or_save self) \<noteq> [])"
      using enter_covered [OF assms cov, of cfg g] by (auto split: if_splits)
    from en ok have g1: "g1 = (add_kernel_name (kernel_name self) g)\<lparr>wrapper_code :=
        wrapper_code g @ scope_lines self cfg (cpp_wrapper g) ''before_launch''\<rparr>"
      using enter_covered [OF assms cov, of cfg g] by (simp split: if_splits)
    have w: "with_DebugPrinterManager self cfg body g =
         (case DebugPrinterManager_exit self' cfg' g2 of
            (Inl e, g3) \<Rightarrow> (Inl e, self', cfg', g3)
          | (Inr u, g3) \<Rightarrow> (r, self', cfg', g3))"
      using en bo by (simp add: with_DebugPrinterManager_def)
    have ex: "DebugPrinterManager_exit self c h =
        (Inr (), h\<lparr>wrapper_code := wrapper_code h @
           scope_lines self c (cpp_wrapper h) ''after_launch''\<rparr>)" for c h
      using exit_covered [OF assms cov, of c h] ok by simp
    from g1 have l1: "wrapper_code g1
        = wrapper_code g @ scope_lines self cfg (cpp_wrapper g) ''before_launch''"
      by simp
    show ?thesis
      using l1 w ex by auto
  qed
  from raised entered show ?thesis
    by blast
qed

text \<open>
  The amended C8 at two concrete scopes on the ABI-compatible cpp wrapper. At level
  DEFAULT_PRINT the code inside the scope writes the launch and raises, and the
  after-launch lines are in the buffer all the same, behind the launch. At level SAVE
  with two arguments and one type tag scope entry raises, and the scope ends there.
\<close>

theorem scope_exit_runs_after_body_witness:
  \<open>with_DebugPrinterManager
      \<lparr>enable_debug_printer = DEFAULT_PRINT, args_to_print_or_save = [''buf0''],
       kernel_name = ''k0'', arg_signatures = Some [TensorArg],
       kernel = (None :: unit option), filtered_kernel_names_to_print = []\<rparr>
      \<lparr>abi_compatible = True, filtered_kernel_names = None\<rparr>
      (\<lambda>self cfg g.
         (Inl (OtherException ''RuntimeError'') :: error + unit, self, cfg,
          writeline ''k0(buf0);'' g))
      \<lparr>cpp_wrapper = True, wrapper_code = [], all_codegen_kernel_names = {}\<rparr>
     = (Inl (OtherException ''RuntimeError''),
        \<lparr>enable_debug_printer = DEFAULT_PRINT, args_to_print_or_save = [''buf0''],
         kernel_name = ''k0'', arg_signatures = Some [TensorArg],
         kernel = (None :: unit option), filtered_kernel_names_to_print = []\<rparr>,
        \<lparr>abi_compatible = True, filtered_kernel_names = None\<rparr>,
        \<lparr>cpp_wrapper = True,
         wrapper_code = [
           ''aoti_torch_save_tensor_handle(buf0, "buf0", "before_launch", "k0");'',
           ''aoti_torch_print_tensor_handle(buf0, "before_launch - k0 - buf0");'',
           ''k0(buf0);'',
           ''aoti_torch_save_tensor_handle(buf0, "buf0", "after_launch", "k0");'',
           ''aoti_torch_print_tensor_handle(buf0, "after_launch - k0 - buf0");''],
         all_codegen_kernel_names = {''k0''}\<rparr>)
   \<and> with_DebugPrinterManager
      \<lparr>enable_debug_printer = SAVE, args_to_print_or_save = [''buf0'', ''buf1''],
       kernel_name = ''k0'', arg_signatures = Some [TensorArg],
       kernel = (None :: unit option), filtered_kernel_names_to_print = []\<rparr>
      \<lparr>abi_compatible = True, filtered_kernel_names = None\<rparr>
      (\<lambda>self cfg g. (Inr () :: error + unit, self, cfg, writeline ''k0(buf0, buf1);'' g))
      \<lparr>cpp_wrapper = True, wrapper_code = [], all_codegen_kernel_names = {}\<rparr>
     = (Inl IndexError,
        \<lparr>enable_debug_printer = SAVE, args_to_print_or_save = [''buf0'', ''buf1''],
         kernel_name = ''k0'', arg_signatures = Some [TensorArg],
         kernel = (None :: unit option), filtered_kernel_names_to_print = []\<rparr>,
        \<lparr>abi_compatible = True, filtered_kernel_names = None\<rparr>,
        \<lparr>cpp_wrapper = True,
         wrapper_code = [
           ''aoti_torch_save_tensor_handle(buf0, "buf0", "before_launch", "k0");''],
         all_codegen_kernel_names = {''k0''}\<rparr>)\<close>
proof -
  let ?C = \<open>\<lparr>abi_compatible = True, filtered_kernel_names = None\<rparr>\<close>
  let ?G = \<open>\<lparr>cpp_wrapper = True, wrapper_code = [], all_codegen_kernel_names = {}\<rparr>\<close>
  let ?M = \<open>\<lparr>enable_debug_printer = DEFAULT_PRINT, args_to_print_or_save = [''buf0''],
       kernel_name = ''k0'', arg_signatures = Some [TensorArg],
       kernel = (None :: unit option), filtered_kernel_names_to_print = []\<rparr>\<close>
  let ?body = \<open>\<lambda>(self :: unit DebugPrinterManager) (cfg :: config) g.
         (Inl (OtherException ''RuntimeError'') :: error + unit, self, cfg,
          writeline ''k0(buf0);'' g)\<close>
  let ?G1 = \<open>\<lparr>cpp_wrapper = True,
        wrapper_code = [
          ''aoti_torch_save_tensor_handle(buf0, "buf0", "before_launch", "k0");'',
          ''aoti_torch_print_tensor_handle(buf0, "before_launch - k0 - buf0");''],
        all_codegen_kernel_names = {''k0''}\<rparr>\<close>
  let ?G2 = \<open>\<lparr>cpp_wrapper = True,
        wrapper_code = [
          ''aoti_torch_save_tensor_handle(buf0, "buf0", "before_launch", "k0");'',
          ''aoti_torch_print_tensor_handle(buf0, "before_launch - k0 - buf0");'',
          ''k0(buf0);''],
        all_codegen_kernel_names = {''k0''}\<rparr>\<close>
  have lvl: \<open>enable_debug_printer ?M \<noteq> OFF\<close>
    by simp
  have en: \<open>DebugPrinterManager_enter ?M ?C ?G = (Inr (), ?G1)\<close>
    by (simp add: eval_defs)
  have bo: \<open>?body ?M ?C ?G1 = (Inl (OtherException ''RuntimeError''), ?M, ?C, ?G2)\<close>
    by (simp add: writeline_def)
  note entered = scope_exit_runs_after_body [OF lvl, where body = \<open>?body\<close>,
      THEN conjunct2, rule_format, OF conjI [OF en bo]]
  from entered [THEN conjunct2, THEN conjunct2, THEN conjunct2]
  have first: \<open>with_DebugPrinterManager ?M ?C ?body ?G =
        (Inl (OtherException ''RuntimeError''), ?M, ?C,
         ?G2\<lparr>wrapper_code := wrapper_code ?G2 @
            scope_lines ?M ?C (cpp_wrapper ?G) ''after_launch''\<rparr>)\<close>
    by simp
  let ?N = \<open>\<lparr>enable_debug_printer = SAVE, args_to_print_or_save = [''buf0'', ''buf1''],
       kernel_name = ''k0'', arg_signatures = Some [TensorArg],
       kernel = (None :: unit option), filtered_kernel_names_to_print = []\<rparr>\<close>
  let ?H1 = \<open>\<lparr>cpp_wrapper = True,
        wrapper_code = [
          ''aoti_torch_save_tensor_handle(buf0, "buf0", "before_launch", "k0");''],
        all_codegen_kernel_names = {''k0''}\<rparr>\<close>
  have lvl': \<open>enable_debug_printer ?N \<noteq> OFF\<close>
    by simp
  have en': \<open>DebugPrinterManager_enter ?N ?C ?G = (Inl IndexError, ?H1)\<close>
    by (simp add: eval_defs)
  note second = scope_exit_runs_after_body [OF lvl', where body =
        \<open>\<lambda>self cfg g. (Inr () :: error + unit, self, cfg, writeline ''k0(buf0, buf1);'' g)\<close>,
      THEN conjunct1, rule_format, OF en']
  show ?thesis
    using first second
    by (simp add: scope_lines_def save_lines_def print_lines_def tensor_typed_args_def
        save_tensor_handle_line_def print_tensor_handle_line_def)
qed

subsection \<open>The type tags of a fresh manager\<close>

text \<open>
  C9. Whatever \<^verbatim>\<open>arg_signatures\<close> the constructor is given, the manager it builds
  has no list of type tags. With that manager the test at the head of both loops skips
  no argument, at any index, so the save step and the print step treat every argument
  they are given as a tensor: on the ABI-compatible cpp wrapper the save step writes one
  save line for each of them, and the print step writes the print lines of all of them
  (or fails its assertion, at FILTERED_PRINT with an empty filter list and an argument
  to print). The setter is what installs a list of type tags: after it the manager
  holds the list it was given. Scope entry and scope exit take the manager and return a
  graph only, so they leave the manager alone.
\<close>

theorem constructor_drops_arg_signatures:
  "arg_signatures (DebugPrinterManager_init env cfg lvl args kn kern sigs) = None
   \<and> not_tensor_arg (arg_signatures (DebugPrinterManager_init env cfg lvl args kn kern sigs)) i
       = Inr False
   \<and> codegen_intermediate_tensor_value_save cfg' args' kn' bl
       (arg_signatures (DebugPrinterManager_init env cfg lvl args kn kern sigs)) g
       = (Inr (), g\<lparr>wrapper_code := wrapper_code g @
            (if cpp_wrapper g \<and> abi_compatible cfg'
             then map (\<lambda>a. save_tensor_handle_line a (launch_prefix bl) kn') args'
             else [])\<rparr>)
   \<and> codegen_intermediate_tensor_value_printer self' cfg' args' kn' bl
       (arg_signatures (DebugPrinterManager_init env cfg lvl args kn kern sigs)) g
       = (if enable_debug_printer self' = FILTERED_PRINT
             \<and> filtered_kernel_names_to_print self' = [] \<and> args' \<noteq> []
          then (Inl AssertionError, g)
          else (Inr (), g\<lparr>wrapper_code := wrapper_code g @
                  print_lines self' cfg' (cpp_wrapper g) kn' (launch_prefix bl) args'\<rparr>))
   \<and> arg_signatures (set_printer_args self args'' kn'' sigs'' kern'') = sigs''"
  by (simp add: DebugPrinterManager_init_def set_printer_args_def not_tensor_arg_def
      save_covered printer_covered sigs_cover_def save_lines_def)

subsection \<open>The registry of kernel names\<close>

text \<open>
  C10. At every level other than OFF, scope entry adds the kernel name of the manager to
  the registry of kernel names, whatever else happens, an exception included. This is
  so also when scope entry appends no line to the code buffer, which is the case when
  there is no watched argument, when no type tag is the tensor kind, and on the cpp
  wrapper without ABI-compatible mode, where both the save path and the print path are
  stubs.
\<close>

theorem entry_registers_kernel_name:
  assumes "enable_debug_printer self \<noteq> OFF"
  shows "all_codegen_kernel_names (snd (DebugPrinterManager_enter self cfg g))
           = insert (kernel_name self) (all_codegen_kernel_names g)
    \<and> (args_to_print_or_save self = []
        \<or> (\<exists>ts. arg_signatures self = Some ts \<and> TensorArg \<notin> set ts)
        \<or> (cpp_wrapper g \<and> \<not> abi_compatible cfg)
       \<longrightarrow> wrapper_code (snd (DebugPrinterManager_enter self cfg g)) = wrapper_code g)"
proof -
  let ?g0 = "add_kernel_name (kernel_name self) g"
  obtain r1 g1 where s: "save_loop cfg (kernel_name self) True (arg_signatures self) 0
      (args_to_print_or_save self) ?g0 = (r1, g1)"
    by (cases "save_loop cfg (kernel_name self) True (arg_signatures self) 0
      (args_to_print_or_save self) ?g0")
  have g1: "all_codegen_kernel_names g1 = insert (kernel_name self) (all_codegen_kernel_names g)"
    and c1: "cpp_wrapper g1 = cpp_wrapper g"
    using save_loop_frame [of cfg "kernel_name self" True "arg_signatures self" 0
        "args_to_print_or_save self" ?g0] s
    by simp_all
  have p: "all_codegen_kernel_names (snd (printer_loop self cfg (kernel_name self) True
      (arg_signatures self) 0 (args_to_print_or_save self) g1)) = all_codegen_kernel_names g1"
    using printer_loop_frame [of self cfg "kernel_name self" True "arg_signatures self" 0
        "args_to_print_or_save self" g1]
    by simp
  have reg: "all_codegen_kernel_names (snd (DebugPrinterManager_enter self cfg g))
           = insert (kernel_name self) (all_codegen_kernel_names g)"
    using assms s g1 p
    by (simp add: DebugPrinterManager_enter_def codegen_intermediate_tensor_value_save_def
        codegen_intermediate_tensor_value_printer_def split: sum.splits)
  have quiet: "wrapper_code (snd (DebugPrinterManager_enter self cfg g)) = wrapper_code g"
    if "args_to_print_or_save self = []"
    using that assms
    by (simp add: DebugPrinterManager_enter_def codegen_intermediate_tensor_value_save_def
        codegen_intermediate_tensor_value_printer_def)
  have silent: "wrapper_code (snd (DebugPrinterManager_enter self cfg g)) = wrapper_code g"
    if h: "(\<exists>ts. arg_signatures self = Some ts \<and> TensorArg \<notin> set ts)
        \<or> (cpp_wrapper g \<and> \<not> abi_compatible cfg)"
  proof -
    from h have h0: "(\<exists>ts. arg_signatures self = Some ts \<and> TensorArg \<notin> set ts)
        \<or> (cpp_wrapper ?g0 \<and> \<not> abi_compatible cfg)"
      by simp
    from h c1 have h1: "(\<exists>ts. arg_signatures self = Some ts \<and> TensorArg \<notin> set ts)
        \<or> (cpp_wrapper g1 \<and> \<not> abi_compatible cfg)"
      by simp
    have w1: "wrapper_code g1 = wrapper_code g"
      using save_loop_silent [OF h0, of "kernel_name self" True 0 "args_to_print_or_save self"] s
      by simp
    have w2: "wrapper_code (snd (printer_loop self cfg (kernel_name self) True
        (arg_signatures self) 0 (args_to_print_or_save self) g1)) = wrapper_code g1"
      using h1 by (rule printer_loop_silent)
    show ?thesis
      using assms s w1 w2
      by (simp add: DebugPrinterManager_enter_def codegen_intermediate_tensor_value_save_def
          codegen_intermediate_tensor_value_printer_def split: sum.splits)
  qed
  from reg quiet silent show ?thesis
    by blast
qed

text \<open>
  C10 at a concrete scope entry: level DEFAULT_PRINT, the one argument \<open>n\<close> tagged as
  something other than a tensor, one line already in the buffer. The kernel name is
  registered and the buffer is as it was.
\<close>

theorem entry_registers_kernel_name_witness:
  "all_codegen_kernel_names (snd (DebugPrinterManager_enter
      \<lparr>enable_debug_printer = DEFAULT_PRINT, args_to_print_or_save = [''n''],
       kernel_name = ''k0'', arg_signatures = Some [OtherArg],
       kernel = (None :: unit option), filtered_kernel_names_to_print = []\<rparr>
      \<lparr>abi_compatible = True, filtered_kernel_names = None\<rparr>
      \<lparr>cpp_wrapper = True, wrapper_code = [''line''], all_codegen_kernel_names = {''k1''}\<rparr>))
     = {''k0'', ''k1''}
   \<and> wrapper_code (snd (DebugPrinterManager_enter
      \<lparr>enable_debug_printer = DEFAULT_PRINT, args_to_print_or_save = [''n''],
       kernel_name = ''k0'', arg_signatures = Some [OtherArg],
       kernel = (None :: unit option), filtered_kernel_names_to_print = []\<rparr>
      \<lparr>abi_compatible = True, filtered_kernel_names = None\<rparr>
      \<lparr>cpp_wrapper = True, wrapper_code = [''line''], all_codegen_kernel_names = {''k1''}\<rparr>))
     = [''line'']"
  using entry_registers_kernel_name [of
      "\<lparr>enable_debug_printer = DEFAULT_PRINT, args_to_print_or_save = [''n''],
       kernel_name = ''k0'', arg_signatures = Some [OtherArg],
       kernel = (None :: unit option), filtered_kernel_names_to_print = []\<rparr>"
      "\<lparr>abi_compatible = True, filtered_kernel_names = None\<rparr>"
      "\<lparr>cpp_wrapper = True, wrapper_code = [''line''], all_codegen_kernel_names = {''k1''}\<rparr>"]
  by simp

end
